theory Spec2Isabelle
  imports Main
begin

section \<open>The GPG front end of trezor-agent: \<open>trezor_agent/gpg/__main__.py\<close>\<close>

text \<open>
  The module holds three functions with control flow of their own: \<open>key_exists\<close>,
  \<open>run_create\<close> and \<open>run_agent\<close>. Everything they call lives in other modules
  (\<open>device\<close>, \<open>keyring\<close>, \<open>decode\<close>, \<open>encode\<close>, \<open>formats\<close>, \<open>protocol\<close>,
  \<open>agent\<close>, \<open>server\<close>). Those collaborators are parameters of the model: a record
  \<open>world\<close> gives, for every call the module makes, what the call answers, and an answer
  is either a value or a raised exception. Every call is also appended to a trace, so the
  order of the calls and the arguments they receive can be stated and proved.
\<close>

subsection \<open>Exceptions\<close>

text \<open>
  Python separates the exceptions below \<open>Exception\<close> from those that only derive from
  \<open>BaseException\<close> (\<open>KeyboardInterrupt\<close>, \<open>SystemExit\<close>, \<open>GeneratorExit\<close>). The
  clause \<open>except Exception\<close> of \<open>run_agent\<close> tells them apart, so the model does too.
  The string is the exception's description.
\<close>

datatype exn = Exn string | BaseExn string

fun is_Exception :: "exn \<Rightarrow> bool" where
  "is_Exception (Exn s) = True"
| "is_Exception (BaseExn s) = False"

subsection \<open>Data\<close>

type_synonym bytes = "nat list"
type_synonym session = nat
type_synonym conn = nat

text \<open>
  Python 3 keeps text (\<open>str\<close>) and binary data (\<open>bytes\<close>) apart, and \<open>==\<close> between a
  \<open>bytes\<close> object and a \<open>str\<close> object is \<open>False\<close> whatever they hold. The user ID of
  the command line is a \<open>str\<close> (line 97); the packets are decoded from a binary stream
  (\<open>io.BytesIO\<close>, line 20), so what kind of object a packet holds as its value is the
  decoder's choice and is part of the model's input.
\<close>

datatype pyval = Text string | Bytes bytes

fun py_eq :: "pyval \<Rightarrow> pyval \<Rightarrow> bool" where
  "py_eq (Text s) (Text t) = (s = t)"
| "py_eq (Bytes a) (Bytes b) = (a = b)"
| "py_eq (Text s) (Bytes b) = False"
| "py_eq (Bytes a) (Text t) = False"

text \<open>The bytes of an ASCII string, as \<open>str.encode\<close> gives them.\<close>

definition encode :: "string \<Rightarrow> bytes" where
  "encode s = map of_char s"

text \<open>
  A decoded packet is a dictionary; \<open>key_exists\<close> reads its entries \<open>'type'\<close> and
  \<open>'value'\<close> only.
\<close>

record packet =
  p_type :: string
  p_value :: pyval

text \<open>
  \<open>decode.parse_packets\<close> is iterated by a \<open>for\<close> loop: each step of the iteration
  yields a packet, ends, or raises. A decoder that fails before its first packet is
  \<open>Broken e\<close> at the head.
\<close>

datatype packets = Exhausted | Broken exn | Packet packet packets

fun packets_of :: "packet list \<Rightarrow> packets" where
  "packets_of [] = Exhausted"
| "packets_of (p # ps) = Packet p (packets_of ps)"

fun packets_then :: "packet list \<Rightarrow> packets \<Rightarrow> packets" where
  "packets_then [] rest = rest"
| "packets_then (p # ps) rest = Packet p (packets_then ps rest)"

text \<open>
  An object of the class \<open>protocol.PublicKey\<close>, with the four arguments it was
  constructed from.
\<close>

record PublicKey =
  curve_name :: string
  created :: int
  verifying_key :: bytes
  ecdh :: bool

text \<open>
  The constructor \<open>protocol.PublicKey(curve_name, created, verifying_key, ecdh)\<close> is
  code of the package: it may refuse its arguments (a curve it does not know, a time
  that does not fit the packet format) by raising. What it refuses is a parameter:
  \<open>None\<close> where the object is constructed, the exception otherwise.
\<close>

type_synonym constructor = "string \<Rightarrow> int \<Rightarrow> bytes \<Rightarrow> bool \<Rightarrow> exn option"

text \<open>The parsed command line of the \<open>create\<close> command.\<close>

record args =
  user_id :: string
  ecdsa_curve :: string
  time :: int

text \<open>
  \<open>main\<close> declares \<open>--time\<close> with \<open>type=int, default=int(time.time())\<close>: the value given
  on the command line, and the clock only when none is given.
\<close>

fun time_argument :: "int \<Rightarrow> int option \<Rightarrow> int" where
  "time_argument now None = now"
| "time_argument now (Some t) = t"

subsection \<open>The collaborators\<close>

text \<open>
  One field per function of another module that \<open>__main__\<close> calls. \<open>sign\<close> is the bound
  method \<open>conn.sign\<close> that \<open>run_create\<close> hands to the encoder as \<open>signer_func\<close>; the
  encoder decides what it asks it to sign.
\<close>

record world =
  HardwareSigner :: "string \<Rightarrow> string \<Rightarrow> exn + session"
  pubkey :: "session \<Rightarrow> bool \<Rightarrow> exn + bytes"
  sign :: "session \<Rightarrow> bytes \<Rightarrow> exn + bytes"
  export_public_keys :: "exn + bytes"
  parse_packets :: "bytes \<Rightarrow> packets"
  export_public_key :: "string \<Rightarrow> exn + bytes"
  get_ecdh_curve_name :: "string \<Rightarrow> exn + string"
  create_primary :: "string \<Rightarrow> PublicKey \<Rightarrow> (bytes \<Rightarrow> exn + bytes) \<Rightarrow> exn + bytes"
  create_subkey :: "bytes \<Rightarrow> PublicKey \<Rightarrow> (bytes \<Rightarrow> exn + bytes) \<Rightarrow> exn + bytes"
  armor :: "bytes \<Rightarrow> string \<Rightarrow> string"
  get_agent_sock_path :: "exn + string"
  unix_domain_socket_server :: "string \<Rightarrow> exn + nat"

subsection \<open>Traces\<close>

datatype log_record =
    Note_time int
  | Adding_subkey string string
  | Creating_primary string string
  | Agent_failed exn

text \<open>
  An encoder call is recorded with the session whose \<open>sign\<close> method it was given.
\<close>

datatype event =
    Log log_record
  | Call_HardwareSigner string string
  | Call_pubkey session bool
  | Call_export_public_keys
  | Call_parse_packets bytes
  | Call_PublicKey string int bytes bool
  | Call_get_ecdh_curve_name string
  | Call_export_public_key string
  | Call_create_primary string PublicKey session
  | Call_create_subkey bytes PublicKey session
  | Stdout_write string
  | Call_get_agent_sock_path
  | Enter_socket_server string
  | Exit_socket_server string
  | Accept conn
  | Call_handle_connection conn
  | Close conn

text \<open>
  A computation takes the trace so far and gives its result, a value or the exception
  it raised, with the trace extended by the calls it made.
\<close>

type_synonym 'a prog = "event list \<Rightarrow> (exn + 'a) \<times> event list"

definition call :: "event \<Rightarrow> exn + 'a \<Rightarrow> 'a prog" where
  "call e r tr = (r, tr @ [e])"

definition then_do :: "'a prog \<Rightarrow> ('a \<Rightarrow> 'b prog) \<Rightarrow> 'b prog" where
  "then_do m f tr =
     (case m tr of
        (Inl e, tr') \<Rightarrow> (Inl e, tr')
      | (Inr x, tr') \<Rightarrow> f x tr')"

subsection \<open>\<open>key_exists\<close>\<close>

text \<open>
  The loop of \<open>key_exists\<close>: return \<open>True\<close> at the first packet of type \<open>user_id\<close>
  whose value \<open>==\<close> the user ID, a \<open>str\<close>; \<open>False\<close> when the iteration ends; an
  exception of the iteration is not caught.
\<close>

fun scan_packets :: "string \<Rightarrow> packets \<Rightarrow> exn + bool" where
  "scan_packets uid Exhausted = Inr False"
| "scan_packets uid (Broken e) = Inl e"
| "scan_packets uid (Packet p ps) =
     (if p_type p = ''user_id'' \<and> py_eq (p_value p) (Text uid) then Inr True
      else scan_packets uid ps)"

definition key_exists :: "world \<Rightarrow> string \<Rightarrow> bool prog" where
  "key_exists w uid =
     then_do (call Call_export_public_keys (export_public_keys w)) (\<lambda>exported.
     call (Call_parse_packets exported) (scan_packets uid (parse_packets w exported)))"

subsection \<open>\<open>run_create\<close>\<close>

text \<open>The constructor call: the object with its four arguments, or the exception.\<close>

definition new_PublicKey ::
    "constructor \<Rightarrow> string \<Rightarrow> int \<Rightarrow> bytes \<Rightarrow> bool \<Rightarrow> PublicKey prog" where
  "new_PublicKey P name t key agreement =
     call (Call_PublicKey name t key agreement)
       (case P name t key agreement of
          Some e \<Rightarrow> Inl e
        | None \<Rightarrow> Inr \<lparr>curve_name = name, created = t, verifying_key = key,
                       ecdh = agreement\<rparr>)"

text \<open>The branch \<open>add as subkey\<close> (lines 37 to 53), giving the local \<open>result\<close>.\<close>

definition add_as_subkey ::
    "constructor \<Rightarrow> world \<Rightarrow> args \<Rightarrow> session \<Rightarrow> bytes \<Rightarrow> bytes \<Rightarrow> bytes prog" where
  "add_as_subkey P w a c vk dk =
     then_do (call (Log (Adding_subkey (ecdsa_curve a) (user_id a))) (Inr ())) (\<lambda>_.
     then_do (new_PublicKey P (ecdsa_curve a) (time a) vk False) (\<lambda>signing_key.
     then_do (call (Call_get_ecdh_curve_name (ecdsa_curve a))
                (get_ecdh_curve_name w (ecdsa_curve a))) (\<lambda>ecdh_curve.
     then_do (new_PublicKey P ecdh_curve (time a) dk True) (\<lambda>encryption_key.
     then_do (call (Call_export_public_key (user_id a))
                (export_public_key w (user_id a))) (\<lambda>primary_bytes.
     then_do (call (Call_create_subkey primary_bytes signing_key c)
                (create_subkey w primary_bytes signing_key (sign w c))) (\<lambda>result.
     call (Call_create_subkey result encryption_key c)
       (create_subkey w result encryption_key (sign w c))))))))"

text \<open>The branch \<open>add as primary\<close> (lines 55 to 71), giving the local \<open>result\<close>.\<close>

definition add_as_primary ::
    "constructor \<Rightarrow> world \<Rightarrow> args \<Rightarrow> session \<Rightarrow> bytes \<Rightarrow> bytes \<Rightarrow> bytes prog" where
  "add_as_primary P w a c vk dk =
     then_do (call (Log (Creating_primary (ecdsa_curve a) (user_id a))) (Inr ())) (\<lambda>_.
     then_do (new_PublicKey P (ecdsa_curve a) (time a) vk False) (\<lambda>primary.
     then_do (call (Call_get_ecdh_curve_name (ecdsa_curve a))
                (get_ecdh_curve_name w (ecdsa_curve a))) (\<lambda>ecdh_curve.
     then_do (new_PublicKey P ecdh_curve (time a) dk True) (\<lambda>subkey.
     then_do (call (Call_create_primary (user_id a) primary c)
                (create_primary w (user_id a) primary (sign w c))) (\<lambda>result.
     call (Call_create_subkey result subkey c)
       (create_subkey w result subkey (sign w c)))))))"

text \<open>
  Lines 31 to 71: the device session, the two public keys, the lookup and the branch
  it selects. The value is the local \<open>result\<close>, the container.
\<close>

definition create_result :: "constructor \<Rightarrow> world \<Rightarrow> args \<Rightarrow> bytes prog" where
  "create_result P w a =
     then_do (call (Call_HardwareSigner (user_id a) (ecdsa_curve a))
                (HardwareSigner w (user_id a) (ecdsa_curve a))) (\<lambda>c.
     then_do (call (Call_pubkey c False) (pubkey w c False)) (\<lambda>vk.
     then_do (call (Call_pubkey c True) (pubkey w c True)) (\<lambda>dk.
     then_do (key_exists w (user_id a)) (\<lambda>found.
     if found then add_as_subkey P w a c vk dk else add_as_primary P w a c vk dk))))"

text \<open>
  \<open>run_create\<close>: the note about \<open>--time\<close>, the container, and the armored container
  written to standard output. The function returns nothing.
\<close>

definition run_create :: "constructor \<Rightarrow> world \<Rightarrow> args \<Rightarrow> unit prog" where
  "run_create P w a =
     then_do (call (Log (Note_time (time a))) (Inr ())) (\<lambda>_.
     then_do (create_result P w a) (\<lambda>result.
     call (Stdout_write (armor w result ''PUBLIC KEY BLOCK'')) (Inr ())))"

text \<open>
  The calls a run makes, from an empty trace; how it ends, by returning or by an
  exception; and the container it builds, the local \<open>result\<close> on line 73, or the
  exception raised before there is one.
\<close>

definition calls_of :: "constructor \<Rightarrow> world \<Rightarrow> args \<Rightarrow> event list" where
  "calls_of P w a = snd (run_create P w a [])"

definition outcome_of :: "constructor \<Rightarrow> world \<Rightarrow> args \<Rightarrow> exn + unit" where
  "outcome_of P w a = fst (run_create P w a [])"

definition container_of :: "constructor \<Rightarrow> world \<Rightarrow> args \<Rightarrow> exn + bytes" where
  "container_of P w a = fst (create_result P w a [Log (Note_time (time a))])"

subsection \<open>\<open>run_agent\<close>\<close>

text \<open>
  \<open>agent.yield_connections(sock)\<close> is an endless generator: each step blocks in
  \<open>accept\<close> until a client connects. What the clients do is the input of the model:
  a finite list of arrivals, each either \<open>accept\<close> raising, or a connection together
  with how \<open>agent.handle_connection\<close> ends on it and how its \<open>close\<close> ends. After the
  last arrival of the list the loop is blocked in the next \<open>accept\<close>: it is
  \<open>Listening\<close>. It is \<open>Stopped\<close> once an exception has left the \<open>for\<close> loop.
\<close>

datatype arrival = Accepted conn "exn + unit" "exn + unit" | Accept_raises exn

datatype status = Listening | Stopped exn

text \<open>
  A body guarded by the clause \<open>except Exception as e\<close>: the handler runs for an
  exception below \<open>Exception\<close>; any other exception goes on.
\<close>

definition except_Exception :: "unit prog \<Rightarrow> (exn \<Rightarrow> unit prog) \<Rightarrow> unit prog" where
  "except_Exception body handler tr =
     (case body tr of
        (Inl e, tr') \<Rightarrow> if is_Exception e then handler e tr' else (Inl e, tr')
      | (Inr x, tr') \<Rightarrow> (Inr x, tr'))"

text \<open>
  \<open>with contextlib.closing(conn): body\<close>: \<open>conn.close()\<close> runs when the body is left,
  by return or by exception. When \<open>close\<close> returns, the body's result or exception goes
  on; when \<open>close\<close> raises, its exception does.
\<close>

definition closing :: "conn \<Rightarrow> exn + unit \<Rightarrow> 'a prog \<Rightarrow> 'a prog" where
  "closing c closed body tr =
     (case body tr of
        (r, tr') \<Rightarrow>
          (case closed of
             Inl e \<Rightarrow> (Inl e, tr' @ [Close c])
           | Inr u \<Rightarrow> (r, tr' @ [Close c])))"

text \<open>Lines 81 to 85: the body of the \<open>for\<close> loop.\<close>

definition serve_connection :: "conn \<Rightarrow> exn + unit \<Rightarrow> exn + unit \<Rightarrow> unit prog" where
  "serve_connection c handled closed =
     closing c closed
       (except_Exception
          (call (Call_handle_connection c) handled)
          (\<lambda>e. call (Log (Agent_failed e)) (Inr ())))"

text \<open>Line 80: the \<open>for\<close> loop over the accepted connections.\<close>

fun connection_loop :: "arrival list \<Rightarrow> event list \<Rightarrow> status \<times> event list" where
  "connection_loop [] tr = (Listening, tr)"
| "connection_loop (Accept_raises e # rest) tr = (Stopped e, tr)"
| "connection_loop (Accepted c handled closed # rest) tr =
     (case serve_connection c handled closed (tr @ [Accept c]) of
        (Inl e, tr') \<Rightarrow> (Stopped e, tr')
      | (Inr _, tr') \<Rightarrow> connection_loop rest tr')"

text \<open>
  \<open>run_agent\<close>: the socket path, the listening socket as a context manager (left, when
  an exception leaves the loop), and the loop.
\<close>

definition run_agent :: "world \<Rightarrow> arrival list \<Rightarrow> status \<times> event list" where
  "run_agent w arrivals =
     (case get_agent_sock_path w of
        Inl e \<Rightarrow> (Stopped e, [Call_get_agent_sock_path])
      | Inr sock_path \<Rightarrow>
          (case unix_domain_socket_server w sock_path of
             Inl e \<Rightarrow> (Stopped e, [Call_get_agent_sock_path, Enter_socket_server sock_path])
           | Inr sock \<Rightarrow>
               (case connection_loop arrivals
                       [Call_get_agent_sock_path, Enter_socket_server sock_path] of
                  (Listening, tr) \<Rightarrow> (Listening, tr)
                | (Stopped e, tr) \<Rightarrow> (Stopped e, tr @ [Exit_socket_server sock_path]))))"

subsection \<open>Reading traces\<close>

fun is_encoder_call :: "event \<Rightarrow> bool" where
  "is_encoder_call (Call_create_primary u k c) = True"
| "is_encoder_call (Call_create_subkey b k c) = True"
| "is_encoder_call ev = False"



fun is_pubkey_call :: "event \<Rightarrow> bool" where
  "is_pubkey_call (Call_pubkey c e) = True"
| "is_pubkey_call ev = False"

fun is_stdout_write :: "event \<Rightarrow> bool" where
  "is_stdout_write (Stdout_write s) = True"
| "is_stdout_write ev = False"

text \<open>The key descriptor an encoder call receives.\<close>

fun key_of :: "event \<Rightarrow> PublicKey option" where
  "key_of (Call_create_primary u k c) = Some k"
| "key_of (Call_create_subkey b k c) = Some k"
| "key_of ev = None"

text \<open>The connections a trace accepts, in order.\<close>

fun accepted_conns :: "event list \<Rightarrow> conn list" where
  "accepted_conns [] = []"
| "accepted_conns (Accept c # tr) = c # accepted_conns tr"
| "accepted_conns (ev # tr) = accepted_conns tr"

text \<open>The events of a connection's life: accepted, handled, closed.\<close>

fun is_lifecycle :: "event \<Rightarrow> bool" where
  "is_lifecycle (Accept c) = True"
| "is_lifecycle (Call_handle_connection c) = True"
| "is_lifecycle (Close c) = True"
| "is_lifecycle ev = False"

text \<open>
  An arrival after which the loop goes on: a connection on which the handler returns,
  or raises an exception below \<open>Exception\<close>, and whose \<open>close\<close> returns.
\<close>

fun ordinary :: "arrival \<Rightarrow> bool" where
  "ordinary (Accepted c (Inr u) (Inr v)) = True"
| "ordinary (Accepted c (Inl e) (Inr v)) = is_Exception e"
| "ordinary (Accepted c handled (Inl e)) = False"
| "ordinary (Accept_raises e) = False"

text \<open>
  An arrival that can stop the loop with the exception \<open>e\<close>: \<open>accept\<close> raises it,
  \<open>close\<close> raises it, or \<open>close\<close> returns and the handler raised it and it is not
  below \<open>Exception\<close>.
\<close>

fun stops_with :: "arrival \<Rightarrow> exn \<Rightarrow> bool" where
  "stops_with (Accept_raises e') e = (e = e')"
| "stops_with (Accepted c handled (Inl e')) e = (e = e')"
| "stops_with (Accepted c (Inl e') (Inr v)) e = (e = e' \<and> \<not> is_Exception e')"
| "stops_with (Accepted c (Inr u) (Inr v)) e = False"

text \<open>The connections among the arrivals, in order.\<close>

fun connections :: "arrival list \<Rightarrow> conn list" where
  "connections [] = []"
| "connections (Accepted c handled closed # xs) = c # connections xs"
| "connections (Accept_raises e # xs) = connections xs"

text \<open>What the loop appends to the trace for an ordinary arrival.\<close>

fun served :: "arrival \<Rightarrow> event list" where
  "served (Accepted c (Inr u) closed) = [Accept c, Call_handle_connection c, Close c]"
| "served (Accepted c (Inl e) closed) =
     [Accept c, Call_handle_connection c, Log (Agent_failed e), Close c]"
| "served (Accept_raises e) = []"

text \<open>The key descriptor the constructor gives for a curve, a key and a role.\<close>

definition descriptor :: "string \<Rightarrow> args \<Rightarrow> bytes \<Rightarrow> bool \<Rightarrow> PublicKey" where
  "descriptor name a key agreement =
     \<lparr>curve_name = name, created = time a, verifying_key = key, ecdh = agreement\<rparr>"




subsection \<open>Sample worlds\<close>

text \<open>
  A constructor that knows two curves and takes the times that fit 32 bits; a device
  that answers; an encoder that appends a tag and the signature it asked for; and a
  keyring that is empty (\<open>fresh_world\<close>) or holds Alice's key, with a decoder that gives
  the user ID as a \<open>str\<close> (\<open>alice_world\<close>) or as \<open>bytes\<close> (\<open>bytes_world\<close>).
\<close>

definition sample_PublicKey :: constructor where
  "sample_PublicKey name t key agreement =
     (if name \<noteq> ''nist256p1'' \<and> name \<noteq> ''ed25519'' \<and> name \<noteq> ''curve25519''
      then Some (Exn ''KeyError'')
      else if t < 0 \<or> 4294967296 \<le> t then Some (Exn ''struct.error'')
      else None)"

definition sample_create_primary ::
    "string \<Rightarrow> PublicKey \<Rightarrow> (bytes \<Rightarrow> exn + bytes) \<Rightarrow> exn + bytes" where
  "sample_create_primary u k signer =
     (case signer (verifying_key k) of
        Inl e \<Rightarrow> Inl e
      | Inr sg \<Rightarrow> Inr (6 # verifying_key k @ 13 # 2 # sg))"

definition sample_create_subkey ::
    "bytes \<Rightarrow> PublicKey \<Rightarrow> (bytes \<Rightarrow> exn + bytes) \<Rightarrow> exn + bytes" where
  "sample_create_subkey b k signer =
     (case signer (b @ verifying_key k) of
        Inl e \<Rightarrow> Inl e
      | Inr sg \<Rightarrow> Inr (b @ 14 # verifying_key k @ 2 # sg))"

definition fresh_world :: world where
  "fresh_world =
     \<lparr>HardwareSigner = (\<lambda>u c. Inr 7),
      pubkey = (\<lambda>c e. Inr (if e then [18] else [19])),
      sign = (\<lambda>c digest. Inr [sum_list digest]),
      export_public_keys = Inr [],
      parse_packets = (\<lambda>b. Exhausted),
      export_public_key = (\<lambda>u. Inr []),
      get_ecdh_curve_name =
        (\<lambda>c. if c = ''nist256p1'' then Inr ''nist256p1''
             else if c = ''ed25519'' then Inr ''curve25519''
             else Inl (Exn ''KeyError'')),
      create_primary = sample_create_primary,
      create_subkey = sample_create_subkey,
      armor = (\<lambda>b t. t),
      get_agent_sock_path = Inr ''S.gpg-agent'',
      unix_domain_socket_server = (\<lambda>p. Inr 3)\<rparr>"

definition alice_packets :: "packet list" where
  "alice_packets =
     [\<lparr>p_type = ''pubkey'', p_value = Bytes [4]\<rparr>,
      \<lparr>p_type = ''user_id'', p_value = Text ''alice@example.com''\<rparr>,
      \<lparr>p_type = ''signature'', p_value = Bytes [4]\<rparr>]"

definition alice_world :: world where
  "alice_world =
     fresh_world
       \<lparr>export_public_keys := Inr [6, 13, 2],
        parse_packets := (\<lambda>b. packets_of alice_packets),
        export_public_key := (\<lambda>u. Inr [6, 13, 2])\<rparr>"

text \<open>The same keyring, read by a decoder that leaves the user ID as \<open>bytes\<close>.\<close>

definition bytes_world :: world where
  "bytes_world =
     alice_world
       \<lparr>parse_packets :=
          (\<lambda>b. packets_of
                 [\<lparr>p_type = ''pubkey'', p_value = Bytes [4]\<rparr>,
                  \<lparr>p_type = ''user_id'', p_value = Bytes (encode ''alice@example.com'')\<rparr>,
                  \<lparr>p_type = ''signature'', p_value = Bytes [4]\<rparr>])\<rparr>"

text \<open>The keyring as it is some time later: more is exported, Alice's key is the same.\<close>

definition later_world :: world where
  "later_world =
     alice_world
       \<lparr>export_public_keys := Inr [6, 13, 2, 6, 13, 2],
        parse_packets :=
          (\<lambda>b. packets_of
                 (alice_packets @ [\<lparr>p_type = ''user_id'', p_value = Text ''bob''\<rparr>])),
        armor := (\<lambda>b t. t @ t)\<rparr>"

text \<open>The keyring's export fails.\<close>

definition unavailable_world :: world where
  "unavailable_world =
     alice_world\<lparr>export_public_keys := Inl (Exn ''gpg2 export failed'')\<rparr>"

text \<open>The export is cut short: the decoder raises after the first packet.\<close>

definition torn_world :: world where
  "torn_world =
     alice_world
       \<lparr>parse_packets :=
          (\<lambda>b. packets_then [\<lparr>p_type = ''pubkey'', p_value = Bytes [4]\<rparr>]
                 (Broken (Exn ''truncated packet'')))\<rparr>"


definition alice_args :: args where
  "alice_args = \<lparr>user_id = ''alice@example.com'', ecdsa_curve = ''nist256p1'',
                 time = 1000000000\<rparr>"

section \<open>Properties of \<open>key_exists\<close> and \<open>run_create\<close>\<close>

lemma then_do_call:
  "then_do (call ev r) f tr =
     (case r of Inl e \<Rightarrow> (Inl e, tr @ [ev]) | Inr x \<Rightarrow> f x (tr @ [ev]))"
  by (simp add: then_do_def call_def split: sum.splits)

lemma then_do_new_PublicKey:
  "then_do (new_PublicKey P name t key agreement) f tr =
     (case P name t key agreement of
        Some e \<Rightarrow> (Inl e, tr @ [Call_PublicKey name t key agreement])
      | None \<Rightarrow>
          f \<lparr>curve_name = name, created = t, verifying_key = key, ecdh = agreement\<rparr>
            (tr @ [Call_PublicKey name t key agreement]))"
  by (simp add: new_PublicKey_def then_do_call split: option.splits)

lemma key_exists_eq:
  "key_exists w uid tr =
     (case export_public_keys w of
        Inl e \<Rightarrow> (Inl e, tr @ [Call_export_public_keys])
      | Inr exported \<Rightarrow>
          (scan_packets uid (parse_packets w exported),
           tr @ [Call_export_public_keys, Call_parse_packets exported]))"
  by (simp add: key_exists_def then_do_call call_def split: sum.splits)

lemma then_do_key_exists:
  "then_do (key_exists w uid) f tr =
     (case fst (key_exists w uid []) of
        Inl e \<Rightarrow> (Inl e, tr @ snd (key_exists w uid []))
      | Inr found \<Rightarrow> f found (tr @ snd (key_exists w uid [])))"
  by (simp add: then_do_def key_exists_eq split: sum.splits)

lemma snd_key_exists:
  "snd (key_exists w uid []) =
     (case export_public_keys w of
        Inl e \<Rightarrow> [Call_export_public_keys]
      | Inr exported \<Rightarrow> [Call_export_public_keys, Call_parse_packets exported])"
  by (simp add: key_exists_eq split: sum.splits)

lemma add_as_subkey_eq:
  "add_as_subkey P w a c vk dk tr =
    (let t1 = tr @ [Log (Adding_subkey (ecdsa_curve a) (user_id a)),
                    Call_PublicKey (ecdsa_curve a) (time a) vk False] in
     case P (ecdsa_curve a) (time a) vk False of
       Some e \<Rightarrow> (Inl e, t1)
     | None \<Rightarrow>
    (let t2 = t1 @ [Call_get_ecdh_curve_name (ecdsa_curve a)] in
     case get_ecdh_curve_name w (ecdsa_curve a) of
       Inl e \<Rightarrow> (Inl e, t2)
     | Inr ecdh_curve \<Rightarrow>
    (let t3 = t2 @ [Call_PublicKey ecdh_curve (time a) dk True] in
     case P ecdh_curve (time a) dk True of
       Some e \<Rightarrow> (Inl e, t3)
     | None \<Rightarrow>
    (let t4 = t3 @ [Call_export_public_key (user_id a)] in
     case export_public_key w (user_id a) of
       Inl e \<Rightarrow> (Inl e, t4)
     | Inr primary_bytes \<Rightarrow>
    (let signing_key = descriptor (ecdsa_curve a) a vk False;
         t5 = t4 @ [Call_create_subkey primary_bytes signing_key c] in
     case create_subkey w primary_bytes signing_key (sign w c) of
       Inl e \<Rightarrow> (Inl e, t5)
     | Inr result \<Rightarrow>
    (let encryption_key = descriptor ecdh_curve a dk True in
     (create_subkey w result encryption_key (sign w c),
      t5 @ [Call_create_subkey result encryption_key c])))))))"
  by (simp add: add_as_subkey_def then_do_call then_do_new_PublicKey call_def Let_def
      descriptor_def split: sum.splits option.splits)

lemma add_as_primary_eq:
  "add_as_primary P w a c vk dk tr =
    (let t1 = tr @ [Log (Creating_primary (ecdsa_curve a) (user_id a)),
                    Call_PublicKey (ecdsa_curve a) (time a) vk False] in
     case P (ecdsa_curve a) (time a) vk False of
       Some e \<Rightarrow> (Inl e, t1)
     | None \<Rightarrow>
    (let t2 = t1 @ [Call_get_ecdh_curve_name (ecdsa_curve a)] in
     case get_ecdh_curve_name w (ecdsa_curve a) of
       Inl e \<Rightarrow> (Inl e, t2)
     | Inr ecdh_curve \<Rightarrow>
    (let t3 = t2 @ [Call_PublicKey ecdh_curve (time a) dk True] in
     case P ecdh_curve (time a) dk True of
       Some e \<Rightarrow> (Inl e, t3)
     | None \<Rightarrow>
    (let primary = descriptor (ecdsa_curve a) a vk False;
         t4 = t3 @ [Call_create_primary (user_id a) primary c] in
     case create_primary w (user_id a) primary (sign w c) of
       Inl e \<Rightarrow> (Inl e, t4)
     | Inr result \<Rightarrow>
    (let subkey = descriptor ecdh_curve a dk True in
     (create_subkey w result subkey (sign w c),
      t4 @ [Call_create_subkey result subkey c]))))))"
  by (simp add: add_as_primary_def then_do_call then_do_new_PublicKey call_def Let_def
      descriptor_def split: sum.splits option.splits)

lemma create_result_eq:
  "create_result P w a tr =
    (let t1 = tr @ [Call_HardwareSigner (user_id a) (ecdsa_curve a)] in
     case HardwareSigner w (user_id a) (ecdsa_curve a) of
       Inl e \<Rightarrow> (Inl e, t1)
     | Inr c \<Rightarrow>
        (case pubkey w c False of
           Inl e \<Rightarrow> (Inl e, t1 @ [Call_pubkey c False])
         | Inr vk \<Rightarrow>
            (case pubkey w c True of
               Inl e \<Rightarrow> (Inl e, t1 @ [Call_pubkey c False, Call_pubkey c True])
             | Inr dk \<Rightarrow>
                (let t2 = t1 @ [Call_pubkey c False, Call_pubkey c True]
                            @ snd (key_exists w (user_id a) []) in
                 case fst (key_exists w (user_id a) []) of
                   Inl e \<Rightarrow> (Inl e, t2)
                 | Inr found \<Rightarrow>
                     if found then add_as_subkey P w a c vk dk t2
                     else add_as_primary P w a c vk dk t2))))"
  by (simp add: create_result_def then_do_call then_do_key_exists Let_def split: sum.splits)

lemma run_create_eq:
  "run_create P w a tr =
     (case create_result P w a (tr @ [Log (Note_time (time a))]) of
        (Inl e, tr') \<Rightarrow> (Inl e, tr')
      | (Inr result, tr') \<Rightarrow>
          (Inr (), tr' @ [Stdout_write (armor w result ''PUBLIC KEY BLOCK'')]))"
  by (simp add: run_create_def then_do_call then_do_def call_def split: sum.splits prod.splits)

lemmas run_eqs = calls_of_def outcome_of_def container_of_def run_create_eq create_result_eq
  add_as_subkey_eq add_as_primary_eq snd_key_exists Let_def




lemma py_eq_Text: "py_eq v (Text s) \<longleftrightarrow> v = Text s"
  by (cases v) simp_all

lemma scan_packets_of:
  "scan_packets uid (packets_of ps) =
     Inr (\<exists>p\<in>set ps. p_type p = ''user_id'' \<and> p_value p = Text uid)"
  by (induction ps) (auto simp add: py_eq_Text)

lemma scan_packets_then:
  "\<forall>q\<in>set ps. \<not> (p_type q = ''user_id'' \<and> p_value q = Text uid) \<Longrightarrow>
   scan_packets uid (packets_then ps rest) = scan_packets uid rest"
  by (induction ps) (auto simp add: py_eq_Text)

lemma scan_packets_never_False:
  "scan_packets uid (packets_then ps (Broken e)) \<noteq> Inr False"
  by (induction ps) auto

text \<open>
  Claim C8. In every run, every key descriptor given to the encoder with
  \<open>ecdh = True\<close> has the curve name that \<open>formats.get_ecdh_curve_name\<close> returned for the
  requested curve, and every other descriptor has the requested curve itself; the
  arguments of the command hold no second curve. A run that returns has given the
  encoder such an encryption key.
\<close>

theorem companion_curve:
  "(\<forall>ev\<in>set (calls_of P w a). \<forall>k. key_of ev = Some k \<longrightarrow>
      (if ecdh k then get_ecdh_curve_name w (ecdsa_curve a) = Inr (curve_name k)
       else curve_name k = ecdsa_curve a))
   \<and> (\<forall>r. outcome_of P w a = Inr r \<longrightarrow>
        (\<exists>ev\<in>set (calls_of P w a). \<exists>k. key_of ev = Some k \<and> ecdh k))"
  by (auto simp add: run_eqs descriptor_def split: sum.splits option.splits)

text \<open>
  Claim C5, as the code has it. With a device that answers, a run starts with the note,
  the device session, the two public key requests and only then the keyring export of
  the lookup; no public key is requested after that, and no encoder call is among the
  first six calls, the fifth and sixth being the export and the decoding of the lookup.
  If the lookup raises, the run ends with that exception, after exactly the two
  public key requests and without any encoder call.
\<close>

theorem keys_before_lookup:
  assumes "HardwareSigner w (user_id a) (ecdsa_curve a) = Inr c"
    and "pubkey w c False = Inr vk"
    and "pubkey w c True = Inr dk"
  shows "take 5 (calls_of P w a) =
           [Log (Note_time (time a)), Call_HardwareSigner (user_id a) (ecdsa_curve a),
            Call_pubkey c False, Call_pubkey c True, Call_export_public_keys]
       \<and> filter is_pubkey_call (drop 5 (calls_of P w a)) = []
       \<and> filter is_encoder_call (take 6 (calls_of P w a)) = []
       \<and> (fst (key_exists w (user_id a) []) = Inl e \<longrightarrow>
            outcome_of P w a = Inl e
            \<and> filter is_pubkey_call (calls_of P w a) = [Call_pubkey c False, Call_pubkey c True]
            \<and> filter is_encoder_call (calls_of P w a) = [])"
  using assms by (simp add: run_eqs split: sum.splits option.splits)

text \<open>
  Claim C7. If the keyring export raises, or the decoder raises before a packet with the
  user ID was seen, then \<open>key_exists\<close> raises that exception, \<open>run_create\<close> ends with
  it, no encoder call is made, nothing is written to standard output, and the export is
  requested once only. Whenever the decoder raises at some point of the export, the
  lookup does not return \<open>False\<close>.
\<close>

theorem lookup_failure_aborts:
  assumes "HardwareSigner w (user_id a) (ecdsa_curve a) = Inr c"
    and "pubkey w c False = Inr vk"
    and "pubkey w c True = Inr dk"
  shows "(export_public_keys w = Inl e
            \<or> export_public_keys w = Inr exported
              \<and> parse_packets w exported = packets_then ps (Broken e)
              \<and> (\<forall>q\<in>set ps. \<not> (p_type q = ''user_id'' \<and> p_value q = Text (user_id a))) \<longrightarrow>
          fst (key_exists w (user_id a) tr) = Inl e
          \<and> outcome_of P w a = Inl e
          \<and> filter is_encoder_call (calls_of P w a) = []
          \<and> filter is_stdout_write (calls_of P w a) = []
          \<and> length (filter (\<lambda>ev. ev = Call_export_public_keys) (calls_of P w a)) = 1)
       \<and> (export_public_keys w = Inl e
            \<or> export_public_keys w = Inr exported
              \<and> parse_packets w exported = packets_then ps (Broken e) \<longrightarrow>
          fst (key_exists w (user_id a) tr) \<noteq> Inr False)"
  using assms
  by (auto simp add: run_eqs key_exists_eq scan_packets_then scan_packets_never_False
      split: sum.splits)

text \<open>
  Claim C9, as the code has it. Two runs with the same arguments build the same
  container, or raise the same exception, when the device gives the same session, public
  keys and signatures, the encoder and the companion curve are the same, and the keyring
  gives the same lookup answer and the same exported primary. Every key descriptor
  given to the encoder carries the time of the arguments, and that time is the one given
  on the command line, the clock being used only when none is given.
\<close>

theorem same_inputs_same_container:
  assumes "HardwareSigner w1 (user_id a) (ecdsa_curve a) =
           HardwareSigner w2 (user_id a) (ecdsa_curve a)"
    and "pubkey w1 = pubkey w2"
    and "sign w1 = sign w2"
    and "get_ecdh_curve_name w1 (ecdsa_curve a) = get_ecdh_curve_name w2 (ecdsa_curve a)"
    and "create_primary w1 = create_primary w2"
    and "create_subkey w1 = create_subkey w2"
    and "fst (key_exists w1 (user_id a) []) = fst (key_exists w2 (user_id a) [])"
    and "export_public_key w1 (user_id a) = export_public_key w2 (user_id a)"
  shows "container_of P w1 a = container_of P w2 a
       \<and> outcome_of P w1 a = outcome_of P w2 a
       \<and> (\<forall>ev\<in>set (calls_of P w1 a). \<forall>k. key_of ev = Some k \<longrightarrow> created k = time a)
       \<and> time_argument now (Some t) = t \<and> time_argument now None = now"
  using assms
  by (auto simp add: run_eqs descriptor_def split: sum.splits option.splits)


lemmas sample_defs = alice_world_def fresh_world_def alice_args_def alice_packets_def
  sample_create_primary_def sample_create_subkey_def sample_PublicKey_def descriptor_def







text \<open>
  Claim C5 as stated fails where the keyring export fails: the lookup raises, and the
  calls made until then include both public key requests to the device, made before the
  export was attempted.
\<close>

theorem lookup_before_keys_counterexample:
  "fst (key_exists unavailable_world (user_id alice_args) []) = Inl (Exn ''gpg2 export failed'')
   \<and> outcome_of sample_PublicKey unavailable_world alice_args
       = Inl (Exn ''gpg2 export failed'')
   \<and> calls_of sample_PublicKey unavailable_world alice_args =
       [Log (Note_time 1000000000), Call_HardwareSigner ''alice@example.com'' ''nist256p1'',
        Call_pubkey 7 False, Call_pubkey 7 True, Call_export_public_keys]"
  by (simp add: run_eqs key_exists_eq sample_defs unavailable_world_def)

text \<open>
  The theorem where the keyring export fails.
\<close>

theorem keys_before_lookup_witness:
  "fst (key_exists unavailable_world (user_id alice_args) []) = Inl (Exn ''gpg2 export failed'')
   \<and> outcome_of sample_PublicKey unavailable_world alice_args
       = Inl (Exn ''gpg2 export failed'')
   \<and> filter is_pubkey_call (calls_of sample_PublicKey unavailable_world alice_args) =
       [Call_pubkey 7 False, Call_pubkey 7 True]
   \<and> filter is_encoder_call (calls_of sample_PublicKey unavailable_world alice_args) = []"
proof -
  have h1: "HardwareSigner unavailable_world (user_id alice_args) (ecdsa_curve alice_args)
      = Inr 7"
    by (simp add: sample_defs unavailable_world_def)
  have h2: "pubkey unavailable_world 7 False = Inr [19]"
    by (simp add: sample_defs unavailable_world_def)
  have h3: "pubkey unavailable_world 7 True = Inr [18]"
    by (simp add: sample_defs unavailable_world_def)
  have h4: "fst (key_exists unavailable_world (user_id alice_args) [])
      = Inl (Exn ''gpg2 export failed'')"
    by (simp add: key_exists_eq sample_defs unavailable_world_def)
  show ?thesis
    using h4 keys_before_lookup [OF h1 h2 h3,
        where e = "Exn ''gpg2 export failed''" and P = sample_PublicKey]
    by simp
qed

text \<open>
  The theorem where the export fails, and where the export is cut short.
\<close>

theorem lookup_failure_aborts_witness:
  "export_public_keys unavailable_world = Inl (Exn ''gpg2 export failed'')
   \<and> outcome_of sample_PublicKey unavailable_world alice_args
       = Inl (Exn ''gpg2 export failed'')
   \<and> filter is_encoder_call (calls_of sample_PublicKey unavailable_world alice_args) = []
   \<and> export_public_keys torn_world = Inr [6, 13, 2]
   \<and> parse_packets torn_world [6, 13, 2] =
       packets_then [\<lparr>p_type = ''pubkey'', p_value = Bytes [4]\<rparr>]
         (Broken (Exn ''truncated packet''))
   \<and> fst (key_exists torn_world (user_id alice_args) []) = Inl (Exn ''truncated packet'')
   \<and> outcome_of sample_PublicKey torn_world alice_args = Inl (Exn ''truncated packet'')
   \<and> filter is_encoder_call (calls_of sample_PublicKey torn_world alice_args) = []"
proof -
  have u1: "HardwareSigner unavailable_world (user_id alice_args) (ecdsa_curve alice_args)
      = Inr 7"
    by (simp add: sample_defs unavailable_world_def)
  have u2: "pubkey unavailable_world 7 False = Inr [19]"
    by (simp add: sample_defs unavailable_world_def)
  have u3: "pubkey unavailable_world 7 True = Inr [18]"
    by (simp add: sample_defs unavailable_world_def)
  have u4: "export_public_keys unavailable_world = Inl (Exn ''gpg2 export failed'')"
    by (simp add: sample_defs unavailable_world_def)
  have t1: "HardwareSigner torn_world (user_id alice_args) (ecdsa_curve alice_args) = Inr 7"
    by (simp add: sample_defs torn_world_def)
  have t2: "pubkey torn_world 7 False = Inr [19]"
    by (simp add: sample_defs torn_world_def)
  have t3: "pubkey torn_world 7 True = Inr [18]"
    by (simp add: sample_defs torn_world_def)
  have t4: "export_public_keys torn_world = Inr [6, 13, 2]"
    by (simp add: sample_defs torn_world_def)
  have t5: "parse_packets torn_world [6, 13, 2] =
      packets_then [\<lparr>p_type = ''pubkey'', p_value = Bytes [4]\<rparr>]
        (Broken (Exn ''truncated packet''))"
    by (simp add: sample_defs torn_world_def)
  have t6: "\<forall>q\<in>set [\<lparr>p_type = ''pubkey'', p_value = Bytes [4]\<rparr>].
      \<not> (p_type q = ''user_id'' \<and> p_value q = Text (user_id alice_args))"
    by simp
  show ?thesis
    using u4 t4 t5 t6
      lookup_failure_aborts [OF u1 u2 u3,
        where e = "Exn ''gpg2 export failed''" and exported = "[]" and ps = "[]"
          and tr = "[]" and P = sample_PublicKey]
      lookup_failure_aborts [OF t1 t2 t3,
        where e = "Exn ''truncated packet''" and exported = "[6, 13, 2]"
          and ps = "[\<lparr>p_type = ''pubkey'', p_value = Bytes [4]\<rparr>]"
          and tr = "[]" and P = sample_PublicKey]
    by simp
qed

text \<open>
  The theorem for the curve \<open>ed25519\<close>: the encryption key is on \<open>curve25519\<close>.
\<close>

theorem companion_curve_witness:
  "outcome_of sample_PublicKey fresh_world (alice_args\<lparr>ecdsa_curve := ''ed25519''\<rparr>)
     = Inr ()
   \<and> map key_of (filter is_encoder_call
        (calls_of sample_PublicKey fresh_world (alice_args\<lparr>ecdsa_curve := ''ed25519''\<rparr>))) =
       [Some \<lparr>curve_name = ''ed25519'', created = 1000000000,
              verifying_key = [19], ecdh = False\<rparr>,
        Some \<lparr>curve_name = ''curve25519'', created = 1000000000,
              verifying_key = [18], ecdh = True\<rparr>]
   \<and> get_ecdh_curve_name fresh_world ''ed25519'' = Inr ''curve25519''
   \<and> (\<exists>ev\<in>set (calls_of sample_PublicKey fresh_world
          (alice_args\<lparr>ecdsa_curve := ''ed25519''\<rparr>)).
        \<exists>k. key_of ev = Some k \<and> ecdh k)"
proof -
  have h: "outcome_of sample_PublicKey fresh_world (alice_args\<lparr>ecdsa_curve := ''ed25519''\<rparr>)
      = Inr ()"
    by (simp add: run_eqs key_exists_eq sample_defs)
  have k: "map key_of (filter is_encoder_call
        (calls_of sample_PublicKey fresh_world (alice_args\<lparr>ecdsa_curve := ''ed25519''\<rparr>))) =
       [Some \<lparr>curve_name = ''ed25519'', created = 1000000000,
              verifying_key = [19], ecdh = False\<rparr>,
        Some \<lparr>curve_name = ''curve25519'', created = 1000000000,
              verifying_key = [18], ecdh = True\<rparr>]"
    by (simp add: run_eqs key_exists_eq sample_defs)
  have g: "get_ecdh_curve_name fresh_world ''ed25519'' = Inr ''curve25519''"
    by (simp add: sample_defs)
  show ?thesis
    using h k g
      companion_curve [of sample_PublicKey fresh_world
        "alice_args\<lparr>ecdsa_curve := ''ed25519''\<rparr>"]
    by blast
qed

text \<open>
  Claim C9 as stated fails: with the same arguments, the same device and the same
  encoder, a run on an empty keyring and a run on a keyring that holds the user ID build
  different containers.
\<close>

theorem same_inputs_counterexample:
  "container_of sample_PublicKey fresh_world alice_args
     = Inr [6, 19, 13, 2, 19, 14, 18, 2, 77]
   \<and> container_of sample_PublicKey alice_world alice_args
     = Inr [6, 13, 2, 14, 19, 2, 40, 14, 18, 2, 114]
   \<and> HardwareSigner fresh_world = HardwareSigner alice_world
   \<and> pubkey fresh_world = pubkey alice_world
   \<and> sign fresh_world = sign alice_world
   \<and> container_of sample_PublicKey fresh_world alice_args
     \<noteq> container_of sample_PublicKey alice_world alice_args"
  by (simp add: run_eqs key_exists_eq sample_defs)

text \<open>
  The theorem for Alice's keyring now and later, when more keys are exported.
\<close>

theorem same_inputs_same_container_witness:
  "export_public_keys alice_world \<noteq> export_public_keys later_world
   \<and> fst (key_exists alice_world (user_id alice_args) []) = Inr True
   \<and> fst (key_exists later_world (user_id alice_args) []) = Inr True
   \<and> container_of sample_PublicKey alice_world alice_args
     = container_of sample_PublicKey later_world alice_args
   \<and> container_of sample_PublicKey later_world alice_args
     = Inr [6, 13, 2, 14, 19, 2, 40, 14, 18, 2, 114]
   \<and> time_argument 1700000000 (Some 1000000000) = 1000000000"
proof -
  have h1: "HardwareSigner alice_world (user_id alice_args) (ecdsa_curve alice_args) =
      HardwareSigner later_world (user_id alice_args) (ecdsa_curve alice_args)"
    by (simp add: sample_defs later_world_def)
  have h2: "pubkey alice_world = pubkey later_world"
    by (simp add: sample_defs later_world_def)
  have h3: "sign alice_world = sign later_world"
    by (simp add: sample_defs later_world_def)
  have h4: "get_ecdh_curve_name alice_world (ecdsa_curve alice_args) =
      get_ecdh_curve_name later_world (ecdsa_curve alice_args)"
    by (simp add: sample_defs later_world_def)
  have h5: "create_primary alice_world = create_primary later_world"
    by (simp add: sample_defs later_world_def)
  have h6: "create_subkey alice_world = create_subkey later_world"
    by (simp add: sample_defs later_world_def)
  have a: "fst (key_exists alice_world (user_id alice_args) []) = Inr True"
    by (simp add: key_exists_eq sample_defs)
  have b: "fst (key_exists later_world (user_id alice_args) []) = Inr True"
    by (simp add: key_exists_eq sample_defs later_world_def)
  have h7: "fst (key_exists alice_world (user_id alice_args) []) =
      fst (key_exists later_world (user_id alice_args) [])"
    using a b by simp
  have h8: "export_public_key alice_world (user_id alice_args) =
      export_public_key later_world (user_id alice_args)"
    by (simp add: sample_defs later_world_def)
  have d: "export_public_keys alice_world \<noteq> export_public_keys later_world"
    by (simp add: sample_defs later_world_def)
  have r: "container_of sample_PublicKey alice_world alice_args
      = Inr [6, 13, 2, 14, 19, 2, 40, 14, 18, 2, 114]"
    by (simp add: run_eqs key_exists_eq sample_defs)
  show ?thesis
    using a b d r
      same_inputs_same_container [OF h1 h2 h3 h4 h5 h6 h7 h8,
        where P = sample_PublicKey and now = 1700000000 and t = 1000000000]
    by simp
qed

lemma key_exists_packets_of:
  assumes "export_public_keys w = Inr exported"
    and "parse_packets w exported = packets_of ps"
  shows "fst (key_exists w uid tr) =
     Inr (\<exists>p\<in>set ps. p_type p = ''user_id'' \<and> p_value p = Text uid)"
  using assms by (simp add: key_exists_eq scan_packets_of)

lemma key_exists_bytes_values:
  assumes "export_public_keys w = Inr exported"
    and "parse_packets w exported = packets_of ps"
    and "\<forall>p\<in>set ps. \<exists>b. p_value p = Bytes b"
  shows "fst (key_exists w uid tr) = Inr False"
  using assms by (auto simp add: key_exists_packets_of)

text \<open>
  Claim C6 fails on the code for a keyring that holds the user ID. The export decodes to
  a \<open>user_id\<close> packet whose value is the user ID as \<open>bytes\<close>, as read from the binary
  stream; \<open>key_exists\<close> compares it with the \<open>str\<close> of the command line and returns
  \<open>False\<close>, although the docstring promises \<open>True\<close> iff there is a key with the user
  ID. The run then takes the branch for a new identity and calls \<open>create_primary\<close> for a
  user ID that has a primary already.
\<close>

theorem key_exists_misses_bytes_value:
  "export_public_keys bytes_world = Inr [6, 13, 2]
   \<and> parse_packets bytes_world [6, 13, 2] =
       packets_of
         [\<lparr>p_type = ''pubkey'', p_value = Bytes [4]\<rparr>,
          \<lparr>p_type = ''user_id'', p_value = Bytes (encode ''alice@example.com'')\<rparr>,
          \<lparr>p_type = ''signature'', p_value = Bytes [4]\<rparr>]
   \<and> fst (key_exists bytes_world ''alice@example.com'' []) = Inr False
   \<and> filter is_encoder_call (calls_of sample_PublicKey bytes_world alice_args) =
       [Call_create_primary ''alice@example.com''
          \<lparr>curve_name = ''nist256p1'', created = 1000000000,
           verifying_key = [19], ecdh = False\<rparr> 7,
        Call_create_subkey [6, 19, 13, 2, 19]
          \<lparr>curve_name = ''nist256p1'', created = 1000000000,
           verifying_key = [18], ecdh = True\<rparr> 7]"
  by (simp add: run_eqs key_exists_eq sample_defs bytes_world_def)

section \<open>Properties of \<open>run_agent\<close>\<close>

lemma serve_connection_eq:
  "serve_connection c handled closed tr =
     (case handled of
        Inr u \<Rightarrow>
          (case closed of
             Inr v \<Rightarrow> (Inr (), tr @ [Call_handle_connection c, Close c])
           | Inl e' \<Rightarrow> (Inl e', tr @ [Call_handle_connection c, Close c]))
      | Inl e \<Rightarrow>
          if is_Exception e
          then (case closed of
                  Inr v \<Rightarrow>
                    (Inr (), tr @ [Call_handle_connection c, Log (Agent_failed e), Close c])
                | Inl e' \<Rightarrow>
                    (Inl e', tr @ [Call_handle_connection c, Log (Agent_failed e), Close c]))
          else (case closed of
                  Inr v \<Rightarrow> (Inl e, tr @ [Call_handle_connection c, Close c])
                | Inl e' \<Rightarrow> (Inl e', tr @ [Call_handle_connection c, Close c])))"
  by (simp add: serve_connection_def closing_def except_Exception_def call_def
      split: sum.splits)

lemma serve_connection_trace:
  "\<exists>new. snd (serve_connection c handled closed tr) = tr @ new
     \<and> filter is_lifecycle new = [Call_handle_connection c, Close c]
     \<and> accepted_conns new = []"
  by (simp add: serve_connection_eq split: sum.splits)

lemma serve_connection_ordinary:
  "ordinary (Accepted c handled closed) \<Longrightarrow>
   serve_connection c handled closed (tr @ [Accept c]) =
     (Inr (), tr @ served (Accepted c handled closed))"
  by (cases "Accepted c handled closed" rule: ordinary.cases)
     (simp_all add: serve_connection_eq)

lemma serve_connection_stops:
  "\<not> ordinary (Accepted c handled closed) \<Longrightarrow>
   \<exists>e. fst (serve_connection c handled closed tr) = Inl e
     \<and> stops_with (Accepted c handled closed) e"
  by (cases "Accepted c handled closed" rule: ordinary.cases)
     (auto simp add: serve_connection_eq split: sum.splits)

lemma connection_loop_ordinary:
  "\<forall>x\<in>set xs. ordinary x \<Longrightarrow>
   connection_loop (xs @ ys) tr = connection_loop ys (tr @ concat (map served xs))"
proof (induction xs arbitrary: tr)
  case Nil
  then show ?case by simp
next
  case (Cons x xs)
  then have x: "ordinary x" and xs: "\<forall>x\<in>set xs. ordinary x"
    by simp_all
  show ?case
  proof (cases x)
    case (Accepted c handled closed)
    with x Cons.IH [OF xs] show ?thesis
      by (simp add: serve_connection_ordinary del: served.simps)
  next
    case (Accept_raises e)
    with x show ?thesis by simp
  qed
qed

lemma accepted_conns_append:
  "accepted_conns (xs @ ys) = accepted_conns xs @ accepted_conns ys"
  by (induction xs rule: accepted_conns.induct) simp_all

lemma accepted_served:
  "\<forall>x\<in>set xs. ordinary x \<Longrightarrow> accepted_conns (concat (map served xs)) = connections xs"
proof (induction xs)
  case Nil
  then show ?case by simp
next
  case (Cons x xs)
  then show ?case
    by (cases x rule: served.cases) (simp_all add: accepted_conns_append)
qed

lemma length_connections:
  "\<forall>x\<in>set xs. ordinary x \<Longrightarrow> length (connections xs) = length xs"
proof (induction xs)
  case Nil
  then show ?case by simp
next
  case (Cons x xs)
  then show ?case by (cases x) simp_all
qed

lemma run_agent_ordinary:
  assumes "get_agent_sock_path w = Inr p"
    and "unix_domain_socket_server w p = Inr s"
    and "\<forall>x\<in>set xs. ordinary x"
  shows "run_agent w xs =
     (Listening, [Call_get_agent_sock_path, Enter_socket_server p] @ concat (map served xs))"
  using assms connection_loop_ordinary [of xs "[]"
      "[Call_get_agent_sock_path, Enter_socket_server p]"]
  by (simp add: run_agent_def)

lemma connection_loop_Stopped:
  "fst (connection_loop xs tr) = Stopped e \<Longrightarrow> \<exists>x\<in>set xs. stops_with x e"
proof (induction xs arbitrary: tr)
  case Nil
  then show ?case by simp
next
  case (Cons x xs)
  show ?case
  proof (cases x)
    case (Accept_raises e')
    with Cons.prems show ?thesis by simp
  next
    case (Accepted c handled closed)
    show ?thesis
    proof (cases "ordinary x")
      case True
      have "connection_loop (x # xs) tr = connection_loop xs (tr @ served x)"
        using True connection_loop_ordinary [of "[x]" xs tr] by simp
      with Cons.prems have "fst (connection_loop xs (tr @ served x)) = Stopped e"
        by simp
      then have "\<exists>x\<in>set xs. stops_with x e" by (rule Cons.IH)
      then show ?thesis by auto
    next
      case False
      then obtain e' where e': "fst (serve_connection c handled closed (tr @ [Accept c])) = Inl e'"
        and s: "stops_with x e'"
        using Accepted serve_connection_stops [of c handled closed "tr @ [Accept c]"] by auto
      have "fst (connection_loop (x # xs) tr) = Stopped e'"
        using Accepted e'
        by (cases "serve_connection c handled closed (tr @ [Accept c])") simp
      with Cons.prems s show ?thesis by simp
    qed
  qed
qed


lemma connection_loop_lifecycle:
  "\<exists>new. snd (connection_loop xs tr) = tr @ new
     \<and> filter is_lifecycle new =
         concat (map (\<lambda>c. [Accept c, Call_handle_connection c, Close c]) (accepted_conns new))"
proof (induction xs arbitrary: tr)
  case Nil
  show ?case by simp
next
  case (Cons x xs)
  show ?case
  proof (cases x)
    case (Accept_raises e)
    then show ?thesis by simp
  next
    case (Accepted c handled closed)
    obtain step where step: "snd (serve_connection c handled closed (tr @ [Accept c]))
        = (tr @ [Accept c]) @ step"
      and life: "filter is_lifecycle step = [Call_handle_connection c, Close c]"
      and none: "accepted_conns step = []"
      using serve_connection_trace [of c handled closed "tr @ [Accept c]"] by blast
    obtain r tr' where served: "serve_connection c handled closed (tr @ [Accept c]) = (r, tr')"
      by (cases "serve_connection c handled closed (tr @ [Accept c])")
    with step have tr': "tr' = tr @ Accept c # step" by simp
    show ?thesis
    proof (cases r)
      case (Inl e)
      have "snd (connection_loop (x # xs) tr) = tr @ (Accept c # step)"
        using Accepted served Inl tr' by simp
      moreover have "filter is_lifecycle (Accept c # step) =
          concat (map (\<lambda>c. [Accept c, Call_handle_connection c, Close c])
            (accepted_conns (Accept c # step)))"
        using life none by simp
      ultimately show ?thesis by blast
    next
      case (Inr u)
      obtain new where new: "snd (connection_loop xs tr') = tr' @ new"
        and rest: "filter is_lifecycle new =
          concat (map (\<lambda>c. [Accept c, Call_handle_connection c, Close c]) (accepted_conns new))"
        using Cons.IH [of tr'] by blast
      have "snd (connection_loop (x # xs) tr) = tr @ (Accept c # step @ new)"
        using Accepted served Inr tr' new by simp
      moreover have "filter is_lifecycle (Accept c # step @ new) =
          concat (map (\<lambda>c. [Accept c, Call_handle_connection c, Close c])
            (accepted_conns (Accept c # step @ new)))"
        using life none rest by (simp add: accepted_conns_append)
      ultimately show ?thesis by blast
    qed
  qed
qed

text \<open>
  Claim C4. In every run, the accept, handler and close events are, for each accepted
  connection in turn, its accept, its handler call and its close: one close per accepted
  connection, after the handler and before the next accept, whatever the handler did.
\<close>

theorem closed_once_per_connection:
  "filter is_lifecycle (snd (run_agent w arrivals)) =
     concat (map (\<lambda>c. [Accept c, Call_handle_connection c, Close c])
       (accepted_conns (snd (run_agent w arrivals))))"
proof (cases "get_agent_sock_path w")
  case (Inl e)
  then show ?thesis by (simp add: run_agent_def)
next
  case (Inr p)
  show ?thesis
  proof (cases "unix_domain_socket_server w p")
    case (Inl e)
    with Inr show ?thesis by (simp add: run_agent_def)
  next
    case sock: (Inr s)
    let ?pre = "[Call_get_agent_sock_path, Enter_socket_server p]"
    obtain new where new: "snd (connection_loop arrivals ?pre) = ?pre @ new"
      and life: "filter is_lifecycle new =
        concat (map (\<lambda>c. [Accept c, Call_handle_connection c, Close c]) (accepted_conns new))"
      using connection_loop_lifecycle [of arrivals ?pre] by blast
    obtain st tr where loop: "connection_loop arrivals ?pre = (st, tr)"
      by (cases "connection_loop arrivals ?pre")
    with new have tr: "tr = ?pre @ new" by simp
    show ?thesis
      using Inr sock loop tr life
      by (cases st) (simp_all add: run_agent_def accepted_conns_append)
  qed
qed


text \<open>
  Claim C3, as the code has it. When every arrival is a connection on which the handler
  returns or raises an exception below \<open>Exception\<close>, and whose \<open>close\<close> returns, the loop
  accepts all of them in order, logs every handler failure, and is still listening; a
  further connection is accepted as well. Whatever the arrivals, an exception that stops
  the loop was raised by \<open>accept\<close> or by \<open>close\<close>, or by the handler without being below
  \<open>Exception\<close>.
\<close>

theorem handler_failures_isolated:
  assumes "get_agent_sock_path w = Inr p"
    and "unix_domain_socket_server w p = Inr s"
    and "\<forall>x\<in>set arrivals. ordinary x"
  shows "fst (run_agent w arrivals) = Listening
       \<and> accepted_conns (snd (run_agent w arrivals)) = connections arrivals
       \<and> length (accepted_conns (snd (run_agent w arrivals))) = length arrivals
       \<and> (\<forall>c e v. Accepted c (Inl e) v \<in> set arrivals \<longrightarrow>
            Log (Agent_failed e) \<in> set (snd (run_agent w arrivals)))
       \<and> accepted_conns (snd (run_agent w (arrivals @ [Accepted c' r' v']))) =
           connections arrivals @ [c']
       \<and> (fst (run_agent w any) = Stopped e' \<longrightarrow> (\<exists>x\<in>set any. stops_with x e'))"
proof -
  let ?pre = "[Call_get_agent_sock_path, Enter_socket_server p]"
  have run: "run_agent w arrivals = (Listening, ?pre @ concat (map served arrivals))"
    using assms by (rule run_agent_ordinary)
  have acc: "accepted_conns (snd (run_agent w arrivals)) = connections arrivals"
    using assms(3) by (simp add: run accepted_served)
  have len: "length (connections arrivals) = length arrivals"
    using assms(3) by (rule length_connections)
  have logged: "\<forall>c e v. Accepted c (Inl e) v \<in> set arrivals \<longrightarrow>
      Log (Agent_failed e) \<in> set (snd (run_agent w arrivals))"
  proof (intro allI impI)
    fix c e v
    assume m: "Accepted c (Inl e) v \<in> set arrivals"
    then have "Log (Agent_failed e) \<in> set (served (Accepted c (Inl e) v))"
      by simp
    with m show "Log (Agent_failed e) \<in> set (snd (run_agent w arrivals))"
      unfolding run by (auto simp del: served.simps)
  qed
  have "connection_loop (arrivals @ [Accepted c' r' v']) ?pre =
      connection_loop [Accepted c' r' v'] (?pre @ concat (map served arrivals))"
    using assms(3) by (rule connection_loop_ordinary)
  then have nxt: "accepted_conns (snd (run_agent w (arrivals @ [Accepted c' r' v']))) =
      connections arrivals @ [c']"
    using assms
    by (simp add: run_agent_def serve_connection_eq accepted_conns_append accepted_served
        split: sum.splits)
  have stop: "\<exists>x\<in>set any. stops_with x e'" if st: "fst (run_agent w any) = Stopped e'"
  proof -
    have "fst (connection_loop any ?pre) = Stopped e'"
    proof (cases "connection_loop any ?pre")
      case (Pair st' tr)
      with st assms(1,2) show ?thesis
        by (cases st') (simp_all add: run_agent_def)
    qed
    then show ?thesis by (rule connection_loop_Stopped)
  qed
  show ?thesis
    using run acc len logged nxt stop by simp
qed


lemmas agent_eval = run_agent_def serve_connection_eq fresh_world_def

text \<open>
  Claim C3 as stated fails in two ways. Of three connections, the second raises
  \<open>KeyboardInterrupt\<close> in the handler, which is not below \<open>Exception\<close>: the loop stops
  and the third connection is never accepted. And when the handler fails on the second
  connection with a protocol error, which is logged, and the \<open>close\<close> of that connection
  raises, the loop stops as well.
\<close>

theorem handler_failures_isolated_counterexample:
  "run_agent fresh_world
     [Accepted 1 (Inr ()) (Inr ()),
      Accepted 2 (Inl (BaseExn ''KeyboardInterrupt'')) (Inr ()),
      Accepted 3 (Inr ()) (Inr ())] =
   (Stopped (BaseExn ''KeyboardInterrupt''),
    [Call_get_agent_sock_path, Enter_socket_server ''S.gpg-agent'',
     Accept 1, Call_handle_connection 1, Close 1,
     Accept 2, Call_handle_connection 2, Close 2,
     Exit_socket_server ''S.gpg-agent''])
   \<and> run_agent fresh_world
     [Accepted 1 (Inr ()) (Inr ()),
      Accepted 2 (Inl (Exn ''protocol error'')) (Inl (Exn ''Bad file descriptor'')),
      Accepted 3 (Inr ()) (Inr ())] =
   (Stopped (Exn ''Bad file descriptor''),
    [Call_get_agent_sock_path, Enter_socket_server ''S.gpg-agent'',
     Accept 1, Call_handle_connection 1, Close 1,
     Accept 2, Call_handle_connection 2, Log (Agent_failed (Exn ''protocol error'')), Close 2,
     Exit_socket_server ''S.gpg-agent''])"
  by (simp add: agent_eval)

text \<open>
  The theorem for three connections, the second of which makes the handler raise, and a
  fourth one after them; and for a run that a failing \<open>close\<close> stops.
\<close>

theorem handler_failures_isolated_witness:
  "fst (run_agent fresh_world
     [Accepted 1 (Inr ()) (Inr ()), Accepted 2 (Inl (Exn ''protocol error'')) (Inr ()),
      Accepted 3 (Inr ()) (Inr ())])
     = Listening
   \<and> accepted_conns (snd (run_agent fresh_world
       [Accepted 1 (Inr ()) (Inr ()), Accepted 2 (Inl (Exn ''protocol error'')) (Inr ()),
        Accepted 3 (Inr ()) (Inr ())]))
     = [1, 2, 3]
   \<and> Log (Agent_failed (Exn ''protocol error'')) \<in> set (snd (run_agent fresh_world
       [Accepted 1 (Inr ()) (Inr ()), Accepted 2 (Inl (Exn ''protocol error'')) (Inr ()),
        Accepted 3 (Inr ()) (Inr ())]))
   \<and> accepted_conns (snd (run_agent fresh_world
       ([Accepted 1 (Inr ()) (Inr ()), Accepted 2 (Inl (Exn ''protocol error'')) (Inr ()),
         Accepted 3 (Inr ()) (Inr ())]
          @ [Accepted 4 (Inr ()) (Inr ())])))
     = [1, 2, 3, 4]
   \<and> fst (run_agent fresh_world
       [Accepted 1 (Inl (Exn ''protocol error'')) (Inr ()),
        Accepted 2 (Inr ()) (Inl (Exn ''Bad file descriptor''))])
     = Stopped (Exn ''Bad file descriptor'')
   \<and> stops_with (Accepted 2 (Inr ()) (Inl (Exn ''Bad file descriptor'')))
       (Exn ''Bad file descriptor'')"
proof -
  have h1: "get_agent_sock_path fresh_world = Inr ''S.gpg-agent''"
    by (simp add: fresh_world_def)
  have h2: "unix_domain_socket_server fresh_world ''S.gpg-agent'' = Inr 3"
    by (simp add: fresh_world_def)
  have h3: "\<forall>x\<in>set [Accepted 1 (Inr ()) (Inr ()),
      Accepted 2 (Inl (Exn ''protocol error'')) (Inr ()), Accepted 3 (Inr ()) (Inr ())].
      ordinary x"
    by simp
  have h4: "fst (run_agent fresh_world
       [Accepted 1 (Inl (Exn ''protocol error'')) (Inr ()),
        Accepted 2 (Inr ()) (Inl (Exn ''Bad file descriptor''))])
     = Stopped (Exn ''Bad file descriptor'')"
    by (simp add: agent_eval)
  show ?thesis
    using h4 handler_failures_isolated [OF h1 h2 h3,
        where c' = 4 and r' = "Inr ()" and v' = "Inr ()"
          and any = "[Accepted 1 (Inl (Exn ''protocol error'')) (Inr ()),
                      Accepted 2 (Inr ()) (Inl (Exn ''Bad file descriptor''))]"
          and e' = "Exn ''Bad file descriptor''"]
    by simp
qed

text \<open>
  The theorem for a run where the handler returns, raises below \<open>Exception\<close>, and raises
  \<open>SystemExit\<close>; and for a run where \<open>close\<close> itself raises.
\<close>

theorem closed_once_per_connection_witness:
  "filter is_lifecycle (snd (run_agent fresh_world
     [Accepted 1 (Inr ()) (Inr ()), Accepted 2 (Inl (Exn ''protocol error'')) (Inr ()),
      Accepted 3 (Inl (BaseExn ''SystemExit'')) (Inr ()), Accepted 4 (Inr ()) (Inr ())])) =
   [Accept 1, Call_handle_connection 1, Close 1,
    Accept 2, Call_handle_connection 2, Close 2,
    Accept 3, Call_handle_connection 3, Close 3]
   \<and> filter is_lifecycle (snd (run_agent fresh_world
     [Accepted 1 (Inr ()) (Inl (Exn ''Bad file descriptor'')), Accepted 2 (Inr ()) (Inr ())])) =
   [Accept 1, Call_handle_connection 1, Close 1]"
proof -
  have a: "accepted_conns (snd (run_agent fresh_world
     [Accepted 1 (Inr ()) (Inr ()), Accepted 2 (Inl (Exn ''protocol error'')) (Inr ()),
      Accepted 3 (Inl (BaseExn ''SystemExit'')) (Inr ()), Accepted 4 (Inr ()) (Inr ())]))
      = [1, 2, 3]"
    by (simp add: agent_eval)
  have b: "accepted_conns (snd (run_agent fresh_world
     [Accepted 1 (Inr ()) (Inl (Exn ''Bad file descriptor'')), Accepted 2 (Inr ()) (Inr ())]))
      = [1]"
    by (simp add: agent_eval)
  show ?thesis
    using a b
      closed_once_per_connection [of fresh_world
        "[Accepted 1 (Inr ()) (Inr ()), Accepted 2 (Inl (Exn ''protocol error'')) (Inr ()),
          Accepted 3 (Inl (BaseExn ''SystemExit'')) (Inr ()), Accepted 4 (Inr ()) (Inr ())]"]
      closed_once_per_connection [of fresh_world
        "[Accepted 1 (Inr ()) (Inl (Exn ''Bad file descriptor'')),
          Accepted 2 (Inr ()) (Inr ())]"]
    by simp
qed


end
